theory Spec2Isabelle
  imports Main "HOL-Library.Word"
begin

section \<open>Data model of \<open>RPC::ClientSession\<close>\<close>

text \<open>
  The session code is the second half of the source file (\<open>RPC/ClientSession.cc\<close>). The
  headers that declare its classes are not among the sources, so the members are typed by
  the way the code uses them:
  \<^item> \<open>numActiveRPCs\<close> is an unsigned machine counter. Its width is left open, as the type
  parameter \<open>'n\<close> of the session: \<open>++\<close> and \<open>--\<close> wrap around, and \<open>> 0\<close> is the
  unsigned comparison;
  \<^item> \<open>Buffer\<close> is a byte string, empty when default-constructed;
  \<^item> \<open>TimePoint\<close> and timer intervals are nanosecond counts.
\<close>

text \<open>
  Modelled from the spec: the declaration of \<open>MessageSocket::MessageId\<close> is not among the
  sources. By the specification (6, wire framing) a frame carries an unsigned 64-bit message
  id, and the code prints it with \<open>%lu\<close>; \<open>++nextMessageId\<close> is addition modulo
  \<open>2 ^ 64\<close>.
\<close>

type_synonym MessageId = "64 word"
type_synonym Buffer = string
type_synonym TimePoint = nat

definition TIMEOUT_MS :: nat where
  "TIMEOUT_MS = 100"

definition PING_MESSAGE_ID :: MessageId where
  "PING_MESSAGE_ID = 0"

datatype error = AssertionFailed | Panic | UseAfterFree

subsection \<open>\<open>ClientSession::Response\<close>\<close>

datatype ResponseStatus = WAITING | HAS_REPLY | CANCELED

text \<open>
  The condition variable \<open>ready\<close> is modelled by the number of \<open>notify_all\<close> calls made
  on it.
\<close>

record Response =
  status :: ResponseStatus
  reply :: Buffer
  hasWaiter :: bool
  ready :: nat

definition Response_new :: Response where
  "Response_new = \<lparr>status = WAITING, reply = [], hasWaiter = False, ready = 0\<rparr>"

definition notify_all :: "Response \<Rightarrow> Response" where
  "notify_all response = response\<lparr>ready := Suc (ready response)\<rparr>"

subsection \<open>\<open>OpaqueClientRPC\<close>, the caller's handle\<close>

text \<open>
  Modelled from the spec: class \<open>OpaqueClientRPC\<close> is declared outside the sources. The
  session code reads and writes its members \<open>session\<close>, \<open>responseToken\<close>, \<open>status\<close>,
  \<open>reply\<close> and \<open>errorMessage\<close> and the status values \<open>OK\<close>, \<open>ERROR\<close> and
  \<open>CANCELED\<close>. By the specification (3) a new handle is pending, here \<open>NOT_READY\<close>,
  with empty reply and error message. \<open>rpc_session\<close> tells whether the shared pointer
  \<open>session\<close> is set; it can only point to the session that issued the handle.
\<close>

datatype RPCStatus = NOT_READY | OK | ERROR | RPC_CANCELED

record OpaqueClientRPC =
  rpc_session :: bool
  responseToken :: MessageId
  rpc_status :: RPCStatus
  rpc_reply :: Buffer
  rpc_errorMessage :: string

definition OpaqueClientRPC_new :: OpaqueClientRPC where
  "OpaqueClientRPC_new =
     \<lparr>rpc_session = False, responseToken = 0, rpc_status = NOT_READY,
      rpc_reply = [], rpc_errorMessage = []\<rparr>"

subsection \<open>\<open>ClientSession\<close>\<close>

text \<open>
  \<^item> \<open>messageSocket\<close>: \<open>None\<close> while the unique pointer is empty, otherwise the frames handed
  to \<open>sendMessage\<close> so far, oldest first;
  \<^item> \<open>timer\<close>: \<open>Some ns\<close> after \<open>schedule(ns)\<close>, \<open>None\<close> after \<open>deschedule()\<close>;
  \<^item> \<open>responses\<close>: the map from message id to the \<open>Response\<close> it owns.
\<close>

record (overloaded) ('n::len) ClientSession =
  address :: string
  messageSocket :: "(MessageId \<times> Buffer) list option"
  timer :: "nat option"
  nextMessageId :: MessageId
  responses :: "MessageId \<rightharpoonup> Response"
  errorMessage :: string
  numActiveRPCs :: "'n word"
  activePing :: bool

definition schedule :: "nat \<Rightarrow> 'n::len ClientSession \<Rightarrow> 'n ClientSession" where
  "schedule ns session = session\<lparr>timer := Some ns\<rparr>"

definition deschedule :: "'n::len ClientSession \<Rightarrow> 'n ClientSession" where
  "deschedule session = session\<lparr>timer := None\<rparr>"

definition sendMessage :: "MessageId \<Rightarrow> Buffer \<Rightarrow> 'n::len ClientSession \<Rightarrow> 'n ClientSession" where
  "sendMessage messageId contents session =
     session\<lparr>messageSocket := map_option (\<lambda>sent. sent @ [(messageId, contents)])
                                  (messageSocket session)\<rparr>"

definition notify_all_responses :: "'n::len ClientSession \<Rightarrow> 'n ClientSession" where
  "notify_all_responses session =
     session\<lparr>responses := map_option notify_all \<circ> responses session\<rparr>"

section \<open>The operations\<close>

subsection \<open>\<open>ClientMessageSocket::onReceiveMessage\<close> and \<open>onDisconnect\<close>\<close>

definition onReceiveMessage :: "'n::len ClientSession \<Rightarrow> MessageId \<Rightarrow> Buffer \<Rightarrow> 'n ClientSession" where
  "onReceiveMessage session messageId message =
     (if messageId = PING_MESSAGE_ID then
        (if numActiveRPCs session > 0 \<and> activePing session
         then schedule (TIMEOUT_MS * 1000 * 1000) (session\<lparr>activePing := False\<rparr>)
         else session)
      else
        (case responses session messageId of
           None \<Rightarrow> session
         | Some response \<Rightarrow>
             if status response = HAS_REPLY then session
             else
               let session1 = session\<lparr>numActiveRPCs := numActiveRPCs session - 1\<rparr>;
                   session2 = (if numActiveRPCs session1 = 0 then deschedule session1
                               else schedule (TIMEOUT_MS * 1000 * 1000) session1)
               in session2\<lparr>responses := (responses session2)(messageId \<mapsto>
                    notify_all (response\<lparr>status := HAS_REPLY, reply := message\<rparr>))\<rparr>))"

definition onDisconnect :: "'n::len ClientSession \<Rightarrow> 'n ClientSession" where
  "onDisconnect session =
     (if errorMessage session = [] then
        notify_all_responses
          (session\<lparr>errorMessage := ''Disconnected from server '' @ address session\<rparr>)
      else session)"

subsection \<open>\<open>Timer::handleTimerEvent\<close>\<close>

definition handleTimerEvent :: "'n::len ClientSession \<Rightarrow> 'n ClientSession" where
  "handleTimerEvent session =
     (if messageSocket session = None \<or> numActiveRPCs session = 0 \<or> errorMessage session \<noteq> []
      then session
      else if \<not> activePing session then
        schedule (TIMEOUT_MS * 1000 * 1000)
          (sendMessage PING_MESSAGE_ID [] (session\<lparr>activePing := True\<rparr>))
      else
        notify_all_responses
          (session\<lparr>errorMessage := ''Server '' @ address session @ '' timed out''\<rparr>))"

subsection \<open>\<open>ClientSession::sendRequest\<close>\<close>

definition sendRequest :: "'n::len ClientSession \<Rightarrow> Buffer \<Rightarrow> 'n ClientSession \<times> OpaqueClientRPC" where
  "sendRequest session request =
     (let messageId = nextMessageId session;
          session1 = session\<lparr>nextMessageId := nextMessageId session + 1\<rparr>;
          session2 = session1\<lparr>responses := (responses session1)(messageId \<mapsto> Response_new)\<rparr>;
          session3 = session2\<lparr>numActiveRPCs := numActiveRPCs session2 + 1\<rparr>;
          session4 = (if numActiveRPCs session3 = 1
                      then schedule (TIMEOUT_MS * 1000 * 1000) (session3\<lparr>activePing := False\<rparr>)
                      else session3);
          session5 = sendMessage messageId request session4
      in (session5,
          OpaqueClientRPC_new\<lparr>rpc_session := True, responseToken := messageId\<rparr>))"

subsection \<open>\<open>ClientSession::cancel\<close>\<close>

text \<open>
  The handle is passed by reference; the function returns it next to the session, as it
  leaves it.
\<close>

definition cancel :: "'n::len ClientSession \<Rightarrow> OpaqueClientRPC \<Rightarrow> 'n ClientSession \<times> OpaqueClientRPC" where
  "cancel session rpc =
     (case responses session (responseToken rpc) of
        None \<Rightarrow> (session, rpc)
      | Some response \<Rightarrow>
          let session1 =
                (if hasWaiter response
                 then session\<lparr>responses := (responses session)(responseToken rpc \<mapsto>
                        notify_all (response\<lparr>status := CANCELED\<rparr>))\<rparr>
                 else session\<lparr>responses := (responses session)(responseToken rpc := None)\<rparr>)
          in (session1\<lparr>numActiveRPCs := numActiveRPCs session1 - 1\<rparr>, rpc))"

subsection \<open>\<open>ClientSession::update\<close>\<close>

text \<open>A failing \<open>assert\<close> aborts the process: the result is \<open>Inl AssertionFailed\<close>.\<close>

definition update :: "'n::len ClientSession \<Rightarrow> OpaqueClientRPC \<Rightarrow> error + 'n ClientSession \<times> OpaqueClientRPC" where
  "update session rpc =
     (case responses session (responseToken rpc) of
        None \<Rightarrow>
          if rpc_status rpc = RPC_CANCELED then Inr (session, rpc) else Inl AssertionFailed
      | Some response \<Rightarrow>
          if status response = HAS_REPLY then
            Inr (session\<lparr>responses := (responses session)(responseToken rpc := None)\<rparr>,
                 rpc\<lparr>rpc_reply := reply response, rpc_status := OK, rpc_session := False\<rparr>)
          else if errorMessage session \<noteq> [] then
            Inr (session\<lparr>responses := (responses session)(responseToken rpc := None)\<rparr>,
                 rpc\<lparr>rpc_errorMessage := errorMessage session, rpc_status := ERROR,
                     rpc_session := False\<rparr>)
          else if status response \<noteq> CANCELED then Inr (session, rpc)
          else Inl AssertionFailed)"

subsection \<open>\<open>ClientSession::wait\<close>\<close>

text \<open>
  \<open>wait\<close> loops under the mutex and gives the mutex up only inside \<open>wait_until\<close>. One pass
  of the loop body, from the lookup to the point where the thread blocks, is \<open>wait_check\<close>:
  it either returns from \<open>wait\<close> or leaves the thread blocked with \<open>hasWaiter\<close> set. What the
  thread does when \<open>wait_until\<close> comes back, by a notification, at the deadline or
  spuriously, is \<open>wait_wake\<close>: it writes \<open>hasWaiter = false\<close> through the pointer
  \<open>response\<close> it took before blocking, and the loop starts over. When the record has been
  deleted in the meantime (\<open>update\<close> deletes a record whether or not it has a waiter) the
  pointer dangles and the write goes to freed memory: the result is \<open>Inl UseAfterFree\<close>. The
  \<open>Response\<close> a waiter points to is identified with the record under its token; a token is
  registered a second time only after the counter of message ids has wrapped around.
\<close>

datatype wait_result = Returned | Blocked

definition wait_check ::
  "'n::len ClientSession \<Rightarrow> OpaqueClientRPC \<Rightarrow> TimePoint \<Rightarrow> TimePoint \<Rightarrow> 'n ClientSession \<times> wait_result" where
  "wait_check session rpc timeout now =
     (case responses session (responseToken rpc) of
        None \<Rightarrow> (session, Returned)
      | Some response \<Rightarrow>
          if status response = HAS_REPLY then (session, Returned)
          else if status response = CANCELED then
            (session\<lparr>responses := (responses session)(responseToken rpc := None)\<rparr>, Returned)
          else if errorMessage session \<noteq> [] then (session, Returned)
          else if timeout < now then (session, Returned)
          else (session\<lparr>responses := (responses session)(responseToken rpc \<mapsto>
                  response\<lparr>hasWaiter := True\<rparr>)\<rparr>, Blocked))"

definition wait_wake :: "'n::len ClientSession \<Rightarrow> OpaqueClientRPC \<Rightarrow> error + 'n ClientSession" where
  "wait_wake session rpc =
     (case responses session (responseToken rpc) of
        None \<Rightarrow> Inl UseAfterFree
      | Some response \<Rightarrow>
          Inr (session\<lparr>responses := (responses session)(responseToken rpc \<mapsto>
            response\<lparr>hasWaiter := False\<rparr>)\<rparr>))"

section \<open>Construction, and the session as a transition system\<close>

subsection \<open>The constructor\<close>

text \<open>
  The constructor talks to the operating system. What it observes there is gathered in a
  \<open>connect_env\<close>: whether the address is valid, the clock, the descriptor returned by
  \<open>socket\<close>, the outcome of \<open>connectFn\<close>, and, for each return of \<open>loop.runForever()\<close>,
  the count of the file notifier, the result of \<open>getsockopt\<close>, the text of a non-zero
  \<open>SO_ERROR\<close> and the clock. The loop may go on for ever on spurious exits: a run that uses up
  the list without leaving the loop has no result.
\<close>

datatype connect_return = CONNECT_OK | EINPROGRESS | CONNECT_ERRNO string

record loop_exit =
  fileNotifierCount :: nat
  getsockopt_r :: int
  so_error :: "string option"
  clock_now :: TimePoint

record connect_env =
  addressValid :: bool
  clock_start :: TimePoint
  socket_fd :: int
  connect_r :: connect_return
  loop_exits :: "loop_exit list"

definition ClientSession_init :: "string \<Rightarrow> 'n::len ClientSession" where
  "ClientSession_init addr =
     \<lparr>address = addr, messageSocket = None, timer = None, nextMessageId = 1,
      responses = Map.empty, errorMessage = [], numActiveRPCs = 0, activePing = False\<rparr>"

fun connect_loop ::
  "'n::len ClientSession \<Rightarrow> TimePoint \<Rightarrow> loop_exit list \<Rightarrow> (error + 'n ClientSession) option" where
  "connect_loop session timeout [] = None"
| "connect_loop session timeout (e # es) =
     (if fileNotifierCount e > 0 then
        (if getsockopt_r e \<noteq> 0 then Some (Inl Panic)
         else case so_error e of
                Some msg \<Rightarrow>
                  Some (Inr (session\<lparr>errorMessage :=
                    ''Failed to connect socket to '' @ address session @ '': '' @ msg\<rparr>))
              | None \<Rightarrow> Some (Inr (session\<lparr>messageSocket := Some []\<rparr>)))
      else if clock_now e > timeout then
        Some (Inr (session\<lparr>errorMessage :=
          ''Failed to connect socket to '' @ address session @ '': timeout expired''\<rparr>))
      else connect_loop session timeout es)"

definition ClientSession_ctor ::
  "string \<Rightarrow> TimePoint \<Rightarrow> connect_env \<Rightarrow> (error + 'n::len ClientSession) option" where
  "ClientSession_ctor addr timeout env =
     (let session = ClientSession_init addr in
      if \<not> addressValid env then
        Some (Inr (session\<lparr>errorMessage := ''Failed to resolve '' @ addr\<rparr>))
      else
        let timeout1 = min timeout (clock_start env + 10 * 1000000000) in
        if socket_fd env < 0 then
          Some (Inr (session\<lparr>errorMessage := ''Failed to create socket''\<rparr>))
        else
          case connect_r env of
            CONNECT_ERRNO msg \<Rightarrow>
              Some (Inr (session\<lparr>errorMessage :=
                ''Failed to connect socket to '' @ addr @ '': '' @ msg\<rparr>))
          | EINPROGRESS \<Rightarrow> connect_loop session timeout1 (loop_exits env)
          | CONNECT_OK \<Rightarrow> Some (Inr (session\<lparr>messageSocket := Some []\<rparr>)))"

subsection \<open>Events\<close>

text \<open>
  Every method body runs under the session's mutex, so the session moves by one event at a
  time: a call of \<open>sendRequest\<close>, an inbound frame, a disconnect, a timer expiry, a call of
  \<open>cancel\<close> or \<open>update\<close>, one pass of the loop of \<open>wait\<close>, or the wake-up of a thread
  blocked in \<open>wait\<close>. A failed assertion or a write to freed memory ends the run.
\<close>

datatype event =
    SendRequest Buffer
  | ReceiveMessage MessageId Buffer
  | Disconnect
  | TimerEvent
  | Cancel OpaqueClientRPC
  | Update OpaqueClientRPC
  | WaitCheck OpaqueClientRPC TimePoint TimePoint
  | WaitWake OpaqueClientRPC

fun step :: "'n::len ClientSession \<Rightarrow> event \<Rightarrow> error + 'n ClientSession" where
  "step session (SendRequest request) = Inr (fst (sendRequest session request))"
| "step session (ReceiveMessage messageId message) =
     Inr (onReceiveMessage session messageId message)"
| "step session Disconnect = Inr (onDisconnect session)"
| "step session TimerEvent = Inr (handleTimerEvent session)"
| "step session (Cancel rpc) = Inr (fst (cancel session rpc))"
| "step session (Update rpc) =
     (case update session rpc of Inl e \<Rightarrow> Inl e | Inr (session', rpc') \<Rightarrow> Inr session')"
| "step session (WaitCheck rpc timeout now) = Inr (fst (wait_check session rpc timeout now))"
| "step session (WaitWake rpc) = wait_wake session rpc"

fun run :: "'n::len ClientSession \<Rightarrow> event list \<Rightarrow> error + 'n ClientSession" where
  "run session [] = Inr session"
| "run session (e # es) =
     (case step session e of Inl err \<Rightarrow> Inl err | Inr session' \<Rightarrow> run session' es)"

inductive reachable :: "'n::len ClientSession \<Rightarrow> bool" where
  constructed: "ClientSession_ctor addr timeout env = Some (Inr session) \<Longrightarrow> reachable session"
| stepped: "reachable session \<Longrightarrow> step session e = Inr session' \<Longrightarrow> reachable session'"

subsection \<open>A whole call of \<open>wait\<close>\<close>

text \<open>
  A call of \<open>wait\<close> strings passes of its loop together. While the thread is blocked the
  mutex is free and the other threads go on: each entry of the schedule gives the events
  that happen before the thread wakes up, and the clock it reads in the next pass. The handle
  is a \<open>const\<close> reference; it is returned as \<open>wait\<close> leaves it. A thread still blocked when
  the schedule ends has not returned: the result is \<open>None\<close>. When an event of another thread
  fails its assertion, or the wake-up writes to freed memory, the process is gone: the
  result is \<open>Some (Inl err)\<close>.
\<close>

fun wait ::
  "'n::len ClientSession \<Rightarrow> OpaqueClientRPC \<Rightarrow> TimePoint \<Rightarrow> TimePoint \<Rightarrow> (event list \<times> TimePoint) list \<Rightarrow>
   (error + 'n ClientSession \<times> OpaqueClientRPC) option" where
  "wait session rpc timeout now [] =
     (case wait_check session rpc timeout now of
        (session1, Returned) \<Rightarrow> Some (Inr (session1, rpc))
      | (session1, Blocked) \<Rightarrow> None)"
| "wait session rpc timeout now ((es, now') # sched) =
     (case wait_check session rpc timeout now of
        (session1, Returned) \<Rightarrow> Some (Inr (session1, rpc))
      | (session1, Blocked) \<Rightarrow>
          (case run session1 es of
             Inl err \<Rightarrow> Some (Inl err)
           | Inr session2 \<Rightarrow>
               (case wait_wake session2 rpc of
                  Inl err \<Rightarrow> Some (Inl err)
                | Inr session3 \<Rightarrow> wait session3 rpc timeout now' sched)))"

subsection \<open>Message ids issued along a run, and the number of waiting records\<close>

fun issued :: "'n::len ClientSession \<Rightarrow> event list \<Rightarrow> MessageId list" where
  "issued session [] = []"
| "issued session (SendRequest request # es) =
     responseToken (snd (sendRequest session request)) #
     issued (fst (sendRequest session request)) es"
| "issued session (e # es) =
     (case step session e of Inl err \<Rightarrow> [] | Inr session' \<Rightarrow> issued session' es)"

definition numWaiting :: "'n::len ClientSession \<Rightarrow> nat" where
  "numWaiting session =
     card {messageId. \<exists>response. responses session messageId = Some response \<and>
                                 status response = WAITING}"

section \<open>The handle's side\<close>


section \<open>Example sessions\<close>

text \<open>
  A session to \<open>host:61023\<close>, with a 32-bit counter, whose connect completes at the first
  exit of the event loop; the same with one request \<open>A\<close> outstanding, with the ping sent,
  expired, with the reply to \<open>A\<close> received, and with \<open>A\<close> cancelled under a blocked
  waiter; a session that failed to resolve its address; and the session after a reply has
  overtaken the waiter of a cancelled call.
\<close>

definition example_env :: connect_env where
  "example_env =
     \<lparr>addressValid = True, clock_start = 0, socket_fd = 3, connect_r = EINPROGRESS,
      loop_exits = [\<lparr>fileNotifierCount = 1, getsockopt_r = 0, so_error = None, clock_now = 5\<rparr>]\<rparr>"

definition example_session :: "32 ClientSession" where
  "example_session = (ClientSession_init ''host:61023'')\<lparr>messageSocket := Some []\<rparr>"

definition example_rpc :: OpaqueClientRPC where
  "example_rpc =
     \<lparr>rpc_session = True, responseToken = 1, rpc_status = NOT_READY,
      rpc_reply = [], rpc_errorMessage = []\<rparr>"

definition example_waiting :: "32 ClientSession" where
  "example_waiting =
     \<lparr>address = ''host:61023'', messageSocket = Some [(1, ''A'')], timer = Some 100000000,
      nextMessageId = 2, responses = [1 \<mapsto> Response_new], errorMessage = [],
      numActiveRPCs = 1, activePing = False\<rparr>"

definition example_pinging :: "32 ClientSession" where
  "example_pinging =
     example_waiting\<lparr>activePing := True, messageSocket := Some [(1, ''A''), (0, [])]\<rparr>"

definition example_expired :: "32 ClientSession" where
  "example_expired =
     example_pinging\<lparr>errorMessage := ''Server host:61023 timed out'',
       responses := [1 \<mapsto> Response_new\<lparr>ready := 1\<rparr>]\<rparr>"


definition example_canceled :: "32 ClientSession" where
  "example_canceled =
     example_waiting\<lparr>numActiveRPCs := 0,
       responses := [1 \<mapsto> \<lparr>status = CANCELED, reply = [], hasWaiter = True, ready = 1\<rparr>]\<rparr>"

definition example_born_failed :: "32 ClientSession" where
  "example_born_failed =
     (ClientSession_init ''nowhere'')\<lparr>errorMessage := ''Failed to resolve nowhere''\<rparr>"

definition example_raced :: "32 ClientSession" where
  "example_raced =
     example_waiting\<lparr>numActiveRPCs := 4294967295,
       responses := [1 \<mapsto> \<lparr>status = HAS_REPLY, reply = ''reply-A'', hasWaiter = False,
                             ready = 2\<rparr>]\<rparr>"

section \<open>Facts about the example sessions\<close>

lemma example_session_ctor:
  "ClientSession_ctor ''host:61023'' 1000 example_env = Some (Inr example_session)"
  by (simp add: ClientSession_ctor_def example_env_def example_session_def Let_def)

lemma sendRequest_example: "sendRequest example_session ''A'' = (example_waiting, example_rpc)"
  by (simp add: sendRequest_def example_session_def ClientSession_init_def example_waiting_def
        example_rpc_def OpaqueClientRPC_new_def schedule_def sendMessage_def TIMEOUT_MS_def Let_def)

lemma handleTimerEvent_example_waiting: "handleTimerEvent example_waiting = example_pinging"
  by (simp add: handleTimerEvent_def example_waiting_def example_pinging_def schedule_def
        sendMessage_def PING_MESSAGE_ID_def TIMEOUT_MS_def)

lemma handleTimerEvent_example_pinging: "handleTimerEvent example_pinging = example_expired"
  by (simp add: handleTimerEvent_def example_waiting_def example_pinging_def example_expired_def
        notify_all_responses_def notify_all_def Response_new_def fun_eq_iff)

lemma reachable_example_session: "reachable example_session"
  by (rule reachable.constructed [OF example_session_ctor])

lemma reachable_example_waiting: "reachable example_waiting"
  using reachable.stepped [OF reachable_example_session, of "SendRequest ''A''" example_waiting]
  by (simp add: sendRequest_example)

lemma reachable_example_pinging: "reachable example_pinging"
  using reachable.stepped [OF reachable_example_waiting, of TimerEvent example_pinging]
  by (simp add: handleTimerEvent_example_waiting)

lemma reachable_example_expired: "reachable example_expired"
  using reachable.stepped [OF reachable_example_pinging, of TimerEvent example_expired]
  by (simp add: handleTimerEvent_example_pinging)

section \<open>Inbound frames\<close>

text \<open>
  C6. For a frame with a message id above 0: when the id has a record whose status is not
  \<open>HAS_REPLY\<close>, the payload becomes the record's reply, the status becomes \<open>HAS_REPLY\<close>, the
  condition variable is notified, \<open>numActiveRPCs\<close> goes down by one, and the timer is
  descheduled if the count is now zero and rescheduled to \<open>TIMEOUT_MS\<close> otherwise, nothing
  else changes; when the id has no record, or one that is \<open>HAS_REPLY\<close> already, the session
  is left as it was.
\<close>

theorem onReceiveMessage_reply_frame:
  assumes "0 < messageId"
  shows "(\<forall>response. responses session messageId = Some response \<and> status response \<noteq> HAS_REPLY \<longrightarrow>
            onReceiveMessage session messageId message =
              session\<lparr>numActiveRPCs := numActiveRPCs session - 1,
                      timer := (if numActiveRPCs session - 1 = 0 then None
                                else Some (TIMEOUT_MS * 1000 * 1000)),
                      responses := (responses session)(messageId \<mapsto>
                        response\<lparr>status := HAS_REPLY, reply := message,
                                 ready := Suc (ready response)\<rparr>)\<rparr>)
       \<and> (responses session messageId = None \<or>
            (\<exists>response. responses session messageId = Some response \<and> status response = HAS_REPLY) \<longrightarrow>
            onReceiveMessage session messageId message = session)"
  using assms
  by (auto simp: onReceiveMessage_def PING_MESSAGE_ID_def schedule_def deschedule_def
        notify_all_def Let_def)

theorem onReceiveMessage_reply_frame_witness:
  "(0::MessageId) < 1
   \<and> responses example_waiting 1 = Some Response_new \<and> status Response_new \<noteq> HAS_REPLY
   \<and> onReceiveMessage example_waiting 1 ''reply-A'' =
       example_waiting\<lparr>numActiveRPCs := 0, timer := None,
         responses := [1 \<mapsto> \<lparr>status = HAS_REPLY, reply = ''reply-A'', hasWaiter = False,
                               ready = 1\<rparr>]\<rparr>
   \<and> responses example_session 1 = None
   \<and> onReceiveMessage example_session 1 ''reply-A'' = example_session"
proof -
  have pos: "(0::MessageId) < 1" by simp
  have rec: "responses example_waiting 1 = Some Response_new \<and> status Response_new \<noteq> HAS_REPLY"
    by (simp add: example_waiting_def Response_new_def)
  have none: "responses example_session 1 = None"
    by (simp add: example_session_def ClientSession_init_def)
  from onReceiveMessage_reply_frame [OF pos, of example_waiting "''reply-A''"] rec
  have "onReceiveMessage example_waiting 1 ''reply-A'' =
          example_waiting\<lparr>numActiveRPCs := numActiveRPCs example_waiting - 1,
            timer := (if numActiveRPCs example_waiting - 1 = 0 then None
                      else Some (TIMEOUT_MS * 1000 * 1000)),
            responses := (responses example_waiting)(1 \<mapsto>
              Response_new\<lparr>status := HAS_REPLY, reply := ''reply-A'',
                            ready := Suc (ready Response_new)\<rparr>)\<rparr>"
    by blast
  then have a: "onReceiveMessage example_waiting 1 ''reply-A'' =
       example_waiting\<lparr>numActiveRPCs := 0, timer := None,
         responses := [1 \<mapsto> \<lparr>status = HAS_REPLY, reply = ''reply-A'', hasWaiter = False,
                               ready = 1\<rparr>]\<rparr>"
    by (simp add: example_waiting_def Response_new_def)
  from onReceiveMessage_reply_frame [OF pos, of example_session "''reply-A''"] none
  have b: "onReceiveMessage example_session 1 ''reply-A'' = example_session"
    by blast
  from pos rec a none b show ?thesis by blast
qed

section \<open>The session error is terminal\<close>

lemma step_errorMessage:
  assumes "errorMessage session \<noteq> []" and "step session e = Inr session'"
  shows "errorMessage session' = errorMessage session"
  using assms
  by (cases e)
     (auto simp: sendRequest_def onReceiveMessage_def onDisconnect_def handleTimerEvent_def
        cancel_def update_def wait_check_def wait_wake_def schedule_def deschedule_def
        sendMessage_def notify_all_responses_def Let_def
        split: option.splits if_splits sum.splits)

lemma run_errorMessage:
  "errorMessage session \<noteq> [] \<Longrightarrow> run session es = Inr session' \<Longrightarrow>
   errorMessage session' = errorMessage session"
proof (induction es arbitrary: session)
  case Nil
  then show ?case by simp
next
  case (Cons e es)
  then obtain s1 where s1: "step session e = Inr s1" and r: "run s1 es = Inr session'"
    by (auto split: sum.splits)
  from step_errorMessage [OF Cons.prems(1) s1] Cons.prems(1)
  have "errorMessage s1 \<noteq> []" and "errorMessage s1 = errorMessage session" by simp_all
  with Cons.IH [OF _ r] show ?case by simp
qed

text \<open>
  C4. Once \<open>errorMessage\<close> is non-empty, no event and no run of events changes it: not an
  inbound frame, a disconnect, a timer expiry, nor a call of \<open>sendRequest\<close>, \<open>cancel\<close>,
  \<open>update\<close> or \<open>wait\<close>. The timer handler and the disconnect handler then leave the whole
  session as it is.
\<close>

theorem errorMessage_terminal:
  assumes "errorMessage session \<noteq> []"
  shows "(\<forall>e session'. step session e = Inr session' \<longrightarrow> errorMessage session' = errorMessage session)
       \<and> (\<forall>es session'. run session es = Inr session' \<longrightarrow> errorMessage session' = errorMessage session)
       \<and> handleTimerEvent session = session
       \<and> onDisconnect session = session"
proof (intro conjI allI impI)
  fix e session' assume "step session e = Inr session'"
  with assms show "errorMessage session' = errorMessage session" by (rule step_errorMessage)
next
  fix es session' assume "run session es = Inr session'"
  with assms show "errorMessage session' = errorMessage session" by (rule run_errorMessage)
next
  from assms show "handleTimerEvent session = session" by (simp add: handleTimerEvent_def)
next
  from assms show "onDisconnect session = session" by (simp add: onDisconnect_def)
qed

lemma run_example_expired:
  "run example_expired [Disconnect, ReceiveMessage 0 [], TimerEvent, SendRequest ''B''] =
     Inr (example_expired\<lparr>nextMessageId := 3, numActiveRPCs := 2, activePing := False,
            messageSocket := Some [(1, ''A''), (0, []), (2, ''B'')],
            responses := [1 \<mapsto> Response_new\<lparr>ready := 1\<rparr>, 2 \<mapsto> Response_new]\<rparr>)"
  by (simp add: example_expired_def example_pinging_def example_waiting_def onDisconnect_def
        onReceiveMessage_def handleTimerEvent_def sendRequest_def PING_MESSAGE_ID_def
        schedule_def sendMessage_def Let_def TIMEOUT_MS_def)

theorem errorMessage_terminal_witness:
  "errorMessage example_expired \<noteq> []
   \<and> run example_expired [Disconnect, ReceiveMessage 0 [], TimerEvent, SendRequest ''B''] =
       Inr (example_expired\<lparr>nextMessageId := 3, numActiveRPCs := 2, activePing := False,
              messageSocket := Some [(1, ''A''), (0, []), (2, ''B'')],
              responses := [1 \<mapsto> Response_new\<lparr>ready := 1\<rparr>, 2 \<mapsto> Response_new]\<rparr>)
   \<and> errorMessage (example_expired\<lparr>nextMessageId := 3, numActiveRPCs := 2, activePing := False,
            messageSocket := Some [(1, ''A''), (0, []), (2, ''B'')],
            responses := [1 \<mapsto> Response_new\<lparr>ready := 1\<rparr>, 2 \<mapsto> Response_new]\<rparr>) =
       ''Server host:61023 timed out''
   \<and> handleTimerEvent example_expired = example_expired
   \<and> onDisconnect example_expired = example_expired"
proof -
  have err: "errorMessage example_expired \<noteq> []"
    by (simp add: example_expired_def)
  have val: "errorMessage example_expired = ''Server host:61023 timed out''"
    by (simp add: example_expired_def)
  from errorMessage_terminal [OF err] run_example_expired val err
  show ?thesis by metis
qed

section \<open>The liveness timer\<close>

lemma connect_loop_socket:
  "connect_loop session timeout es = Some (Inr session') \<Longrightarrow> messageSocket session' = None \<Longrightarrow>
   errorMessage session' \<noteq> []"
  by (induction es) (auto split: if_splits option.splits)

lemma ctor_socket:
  assumes "ClientSession_ctor addr timeout env = Some (Inr session)"
    and "messageSocket session = None"
  shows "errorMessage session \<noteq> []"
proof (cases "connect_r env")
  case EINPROGRESS
  with assms show ?thesis
    by (auto simp: ClientSession_ctor_def Let_def split: if_splits dest: connect_loop_socket)
next
  case CONNECT_OK
  with assms show ?thesis
    by (auto simp: ClientSession_ctor_def Let_def split: if_splits)
next
  case (CONNECT_ERRNO msg)
  with assms show ?thesis
    by (auto simp: ClientSession_ctor_def Let_def split: if_splits)
qed

lemma step_socket:
  assumes "step session e = Inr session'"
  shows "(messageSocket session' = None) = (messageSocket session = None)"
  using assms
  by (cases e)
     (auto simp: sendRequest_def onReceiveMessage_def onDisconnect_def handleTimerEvent_def
        cancel_def update_def wait_check_def wait_wake_def schedule_def deschedule_def
        sendMessage_def notify_all_responses_def Let_def
        split: option.splits if_splits sum.splits)

lemma reachable_socket:
  "reachable session \<Longrightarrow> messageSocket session = None \<Longrightarrow> errorMessage session \<noteq> []"
proof (induction rule: reachable.induct)
  case (constructed addr timeout env session)
  then show ?case by (rule ctor_socket)
next
  case (stepped session e session')
  from stepped.hyps(2) stepped.prems have "messageSocket session = None"
    by (simp add: step_socket)
  then have err: "errorMessage session \<noteq> []" by (rule stepped.IH)
  from step_errorMessage [OF err stepped.hyps(2)] err show ?case by simp
qed

text \<open>
  C5, as amended. In a reachable session the timer handler does one of three things.
  With \<open>numActiveRPCs > 0\<close>, no error and no ping outstanding it sends the frame
  \<open>(0, empty)\<close>, sets \<open>activePing\<close> and reschedules itself for \<open>TIMEOUT_MS\<close>. With
  \<open>numActiveRPCs > 0\<close>, no error and \<open>activePing\<close> set it sets \<open>errorMessage\<close> to
  \<open>Server <address> timed out\<close>, with a capital S, and notifies the condition variable of
  every record. With \<open>numActiveRPCs = 0\<close> or an error it changes nothing.
\<close>

theorem handleTimerEvent_state_machine:
  assumes "reachable session"
  shows "(0 < numActiveRPCs session \<and> errorMessage session = [] \<and> \<not> activePing session \<longrightarrow>
            (\<exists>sent. messageSocket session = Some sent \<and>
               handleTimerEvent session =
                 session\<lparr>activePing := True,
                         messageSocket := Some (sent @ [(0, [])]),
                         timer := Some (TIMEOUT_MS * 1000 * 1000)\<rparr>))
       \<and> (0 < numActiveRPCs session \<and> errorMessage session = [] \<and> activePing session \<longrightarrow>
            handleTimerEvent session =
              session\<lparr>errorMessage := ''Server '' @ address session @ '' timed out'',
                      responses := map_option notify_all \<circ> responses session\<rparr>)
       \<and> (numActiveRPCs session = 0 \<or> errorMessage session \<noteq> [] \<longrightarrow>
            handleTimerEvent session = session)"
proof -
  have sock: "errorMessage session = [] \<Longrightarrow> \<exists>sent. messageSocket session = Some sent"
    using reachable_socket [OF assms] by (cases "messageSocket session") auto
  have nz: "0 < numActiveRPCs session \<Longrightarrow> numActiveRPCs session \<noteq> 0"
    by auto
  show ?thesis
    using sock nz
    by (auto simp: handleTimerEvent_def schedule_def sendMessage_def PING_MESSAGE_ID_def
          notify_all_responses_def)
qed

theorem handleTimerEvent_state_machine_witness:
  "reachable example_waiting \<and> 0 < numActiveRPCs example_waiting
   \<and> errorMessage example_waiting = [] \<and> \<not> activePing example_waiting
   \<and> messageSocket example_waiting = Some [(1, ''A'')]
   \<and> handleTimerEvent example_waiting =
       example_waiting\<lparr>activePing := True, messageSocket := Some [(1, ''A''), (0, [])],
                       timer := Some 100000000\<rparr>
   \<and> reachable example_pinging \<and> 0 < numActiveRPCs example_pinging
   \<and> errorMessage example_pinging = [] \<and> activePing example_pinging
   \<and> errorMessage (handleTimerEvent example_pinging) = ''Server host:61023 timed out''
   \<and> responses (handleTimerEvent example_pinging) 1 = Some (Response_new\<lparr>ready := 1\<rparr>)
   \<and> reachable example_session \<and> numActiveRPCs example_session = 0
   \<and> handleTimerEvent example_session = example_session"
proof -
  have w: "0 < numActiveRPCs example_waiting \<and> errorMessage example_waiting = []
      \<and> \<not> activePing example_waiting \<and> messageSocket example_waiting = Some [(1, ''A'')]"
    by (simp add: example_waiting_def)
  from handleTimerEvent_state_machine [OF reachable_example_waiting] w
  have 1: "handleTimerEvent example_waiting =
       example_waiting\<lparr>activePing := True, messageSocket := Some [(1, ''A''), (0, [])],
                       timer := Some 100000000\<rparr>"
    by (auto simp: TIMEOUT_MS_def)
  have p: "0 < numActiveRPCs example_pinging \<and> errorMessage example_pinging = []
      \<and> activePing example_pinging"
    by (simp add: example_pinging_def example_waiting_def)
  from handleTimerEvent_state_machine [OF reachable_example_pinging] p
  have "handleTimerEvent example_pinging =
          example_pinging\<lparr>errorMessage := ''Server '' @ address example_pinging @ '' timed out'',
            responses := map_option notify_all \<circ> responses example_pinging\<rparr>"
    by blast
  then have 2: "errorMessage (handleTimerEvent example_pinging) = ''Server host:61023 timed out''
      \<and> responses (handleTimerEvent example_pinging) 1 = Some (Response_new\<lparr>ready := 1\<rparr>)"
    by (simp add: example_pinging_def example_waiting_def notify_all_def Response_new_def)
  have i: "numActiveRPCs example_session = 0"
    by (simp add: example_session_def ClientSession_init_def)
  from handleTimerEvent_state_machine [OF reachable_example_session] i
  have 3: "handleTimerEvent example_session = example_session"
    by blast
  from w 1 p 2 i 3 reachable_example_waiting reachable_example_pinging reachable_example_session
  show ?thesis by blast
qed

theorem handleTimerEvent_message_counterexample:
  "reachable example_pinging \<and> 0 < numActiveRPCs example_pinging
   \<and> errorMessage example_pinging = [] \<and> activePing example_pinging
   \<and> address example_pinging = ''host:61023''
   \<and> errorMessage (handleTimerEvent example_pinging) \<noteq> ''server host:61023 timed out''"
proof -
  have "0 < numActiveRPCs example_pinging \<and> errorMessage example_pinging = []
      \<and> activePing example_pinging \<and> address example_pinging = ''host:61023''"
    by (simp add: example_pinging_def example_waiting_def)
  moreover have "errorMessage (handleTimerEvent example_pinging) \<noteq> ''server host:61023 timed out''"
    by (simp add: handleTimerEvent_example_pinging example_expired_def)
  ultimately show ?thesis using reachable_example_pinging by blast
qed

section \<open>Resolving a call: \<open>update\<close>\<close>



section \<open>Blocking on a call: \<open>wait\<close>\<close>









section \<open>Sending on a failed session\<close>

lemma sendRequest_unfold:
  "sendRequest session request =
     (session\<lparr>nextMessageId := nextMessageId session + 1,
        responses := (responses session)(nextMessageId session \<mapsto> Response_new),
        numActiveRPCs := numActiveRPCs session + 1,
        activePing := (if numActiveRPCs session + 1 = 1 then False else activePing session),
        timer := (if numActiveRPCs session + 1 = 1 then Some (TIMEOUT_MS * 1000 * 1000)
                  else timer session),
        messageSocket := map_option (\<lambda>sent. sent @ [(nextMessageId session, request)])
                           (messageSocket session)\<rparr>,
      \<lparr>rpc_session = True, responseToken = nextMessageId session, rpc_status = NOT_READY,
       rpc_reply = [], rpc_errorMessage = []\<rparr>)"
  by (simp add: sendRequest_def Let_def schedule_def sendMessage_def OpaqueClientRPC_new_def)

text \<open>
  C10. \<open>sendRequest\<close> does not look at \<open>errorMessage\<close>. On a session whose error is set it
  still takes the counter's value as message id and moves the counter on, registers a new
  waiting record under the id, increments \<open>numActiveRPCs\<close>, clears \<open>activePing\<close> and
  schedules the timer when the count has become 1, and hands the frame to the socket when
  there is one. The handle comes back not ready, with its reference to the session and no
  error message; the first \<open>update\<close> of it gives it the session's error, status \<open>ERROR\<close>,
  and erases the record.
\<close>

theorem sendRequest_failed_session:
  assumes "errorMessage session \<noteq> []"
    and "sendRequest session request = (session', rpc)"
  shows "responseToken rpc = nextMessageId session
       \<and> nextMessageId session' = nextMessageId session + 1
       \<and> responses session' = (responses session)(nextMessageId session \<mapsto> Response_new)
       \<and> status Response_new = WAITING
       \<and> numActiveRPCs session' = numActiveRPCs session + 1
       \<and> timer session' = (if numActiveRPCs session' = 1 then Some (TIMEOUT_MS * 1000 * 1000)
                             else timer session)
       \<and> activePing session' = (if numActiveRPCs session' = 1 then False else activePing session)
       \<and> messageSocket session' =
           map_option (\<lambda>sent. sent @ [(nextMessageId session, request)]) (messageSocket session)
       \<and> errorMessage session' = errorMessage session
       \<and> address session' = address session
       \<and> rpc = \<lparr>rpc_session = True, responseToken = nextMessageId session,
                 rpc_status = NOT_READY, rpc_reply = [], rpc_errorMessage = []\<rparr>
       \<and> update session' rpc =
           Inr (session'\<lparr>responses := (responses session')(nextMessageId session := None)\<rparr>,
                rpc\<lparr>rpc_errorMessage := errorMessage session, rpc_status := ERROR,
                    rpc_session := False\<rparr>)"
proof -
  from assms(2) have s': "session' = fst (sendRequest session request)"
    and r: "rpc = snd (sendRequest session request)"
    by simp_all
  show ?thesis
    unfolding s' r sendRequest_unfold using assms(1)
    by (simp add: Response_new_def update_def)
qed

theorem sendRequest_failed_session_witness:
  "errorMessage example_born_failed \<noteq> []
   \<and> sendRequest example_born_failed ''B'' =
       (example_born_failed\<lparr>nextMessageId := 2, responses := [1 \<mapsto> Response_new],
          numActiveRPCs := 1, timer := Some 100000000\<rparr>, example_rpc)
   \<and> update (example_born_failed\<lparr>nextMessageId := 2, responses := [1 \<mapsto> Response_new],
          numActiveRPCs := 1, timer := Some 100000000\<rparr>) example_rpc =
       Inr (example_born_failed\<lparr>nextMessageId := 2, responses := Map.empty,
              numActiveRPCs := 1, timer := Some 100000000\<rparr>,
            example_rpc\<lparr>rpc_errorMessage := ''Failed to resolve nowhere'', rpc_status := ERROR,
                        rpc_session := False\<rparr>)
   \<and> errorMessage example_expired \<noteq> []
   \<and> sendRequest example_expired ''B'' =
       (example_expired\<lparr>nextMessageId := 3,
          responses := [1 \<mapsto> Response_new\<lparr>ready := 1\<rparr>, 2 \<mapsto> Response_new],
          numActiveRPCs := 2, messageSocket := Some [(1, ''A''), (0, []), (2, ''B'')]\<rparr>,
        example_rpc\<lparr>responseToken := 2\<rparr>)
   \<and> rpc_status (example_rpc\<lparr>responseToken := 2\<rparr>) = NOT_READY"
proof -
  have e1: "errorMessage example_born_failed \<noteq> []"
    by (simp add: example_born_failed_def)
  have s1: "sendRequest example_born_failed ''B'' =
       (example_born_failed\<lparr>nextMessageId := 2, responses := [1 \<mapsto> Response_new],
          numActiveRPCs := 1, timer := Some 100000000\<rparr>, example_rpc)"
    by (simp add: sendRequest_unfold example_born_failed_def ClientSession_init_def
          example_rpc_def TIMEOUT_MS_def)
  have e2: "errorMessage example_expired \<noteq> []"
    by (simp add: example_expired_def)
  have s2: "sendRequest example_expired ''B'' =
       (example_expired\<lparr>nextMessageId := 3,
          responses := [1 \<mapsto> Response_new\<lparr>ready := 1\<rparr>, 2 \<mapsto> Response_new],
          numActiveRPCs := 2, messageSocket := Some [(1, ''A''), (0, []), (2, ''B'')]\<rparr>,
        example_rpc\<lparr>responseToken := 2\<rparr>)"
    by (simp add: sendRequest_unfold example_expired_def example_pinging_def example_waiting_def
          example_rpc_def)
  from sendRequest_failed_session [OF e1 s1]
  have u1: "update (example_born_failed\<lparr>nextMessageId := 2, responses := [1 \<mapsto> Response_new],
          numActiveRPCs := 1, timer := Some 100000000\<rparr>) example_rpc =
       Inr (example_born_failed\<lparr>nextMessageId := 2, responses := Map.empty,
              numActiveRPCs := 1, timer := Some 100000000\<rparr>,
            example_rpc\<lparr>rpc_errorMessage := ''Failed to resolve nowhere'', rpc_status := ERROR,
                        rpc_session := False\<rparr>)"
    by (simp add: example_born_failed_def ClientSession_init_def)
  from sendRequest_failed_session [OF e2 s2]
  have r2: "rpc_status (example_rpc\<lparr>responseToken := 2\<rparr>) = NOT_READY"
    by simp
  from e1 s1 u1 e2 s2 r2 show ?thesis by blast
qed

section \<open>Message ids\<close>

lemma step_nextMessageId:
  assumes "step session e = Inr session'"
  shows "nextMessageId session' =
           (case e of SendRequest request \<Rightarrow> nextMessageId session + 1 | _ \<Rightarrow> nextMessageId session)"
  using assms
  by (cases e)
     (auto simp: sendRequest_unfold onReceiveMessage_def onDisconnect_def handleTimerEvent_def
        cancel_def update_def wait_check_def wait_wake_def schedule_def deschedule_def
        sendMessage_def notify_all_responses_def Let_def
        split: option.splits if_splits sum.splits)

lemma issued_other:
  "\<forall>request. e \<noteq> SendRequest request \<Longrightarrow>
   issued session (e # es) =
     (case step session e of Inl err \<Rightarrow> [] | Inr session' \<Rightarrow> issued session' es)"
  by (cases e) auto

lemma issued_nth:
  "i < length (issued session es) \<Longrightarrow> issued session es ! i = nextMessageId session + of_nat i"
proof (induction es arbitrary: session i)
  case Nil
  then show ?case by simp
next
  case (Cons e es)
  show ?case
  proof (cases "\<exists>request. e = SendRequest request")
    case True
    then obtain request where e: "e = SendRequest request" by blast
    show ?thesis
    proof (cases i)
      case 0
      with e show ?thesis by (simp add: sendRequest_unfold)
    next
      case (Suc j)
      with Cons.prems e have "j < length (issued (fst (sendRequest session request)) es)"
        by simp
      from Cons.IH [OF this] Suc e show ?thesis
        by (simp add: sendRequest_unfold add.assoc add.commute)
    qed
  next
    case False
    then have other: "\<forall>request. e \<noteq> SendRequest request"
      by blast
    show ?thesis
    proof (cases "step session e")
      case (Inl err)
      with Cons.prems other show ?thesis by (simp add: issued_other)
    next
      case (Inr session')
      with Cons.prems other have "i < length (issued session' es)"
        by (simp add: issued_other)
      from Cons.IH [OF this] Inr other step_nextMessageId [OF Inr] False show ?thesis
        by (cases e) (auto simp: issued_other)
    qed
  qed
qed

lemma issued_replicate:
  "length (issued session (replicate n (SendRequest request))) = n"
  by (induction n arbitrary: session) simp_all

lemma ctor_nextMessageId:
  assumes "ClientSession_ctor addr timeout env = Some (Inr session)"
  shows "nextMessageId session = 1"
proof -
  have loop: "\<And>s t es. connect_loop s t es = Some (Inr session) \<Longrightarrow>
      nextMessageId session = nextMessageId s"
  proof -
    fix s t es show "connect_loop s t es = Some (Inr session) \<Longrightarrow>
      nextMessageId session = nextMessageId s"
      by (induction es) (auto split: if_splits option.splits)
  qed
  from assms show ?thesis
    by (cases "connect_r env")
       (auto simp: ClientSession_ctor_def Let_def ClientSession_init_def
          split: if_splits dest!: loop)
qed

lemma unat_one_plus:
  assumes "Suc i < 2 ^ 64"
  shows "unat ((1::64 word) + of_nat i) = Suc i"
  using assms
  by (simp add: unat_word_ariths unat_of_nat)

text \<open>
  C3, as amended. The counter starts at 1 and \<open>sendRequest\<close> adds 1 to it modulo \<open>2 ^ 64\<close>,
  with no step over 0. So while a session has issued fewer than \<open>2 ^ 64\<close> ids, whatever
  other events come in between, the \<open>i\<close>-th id issued is \<open>i\<close>: every id is nonzero and
  greater than all ids issued before it.
\<close>

theorem issued_ids_increase:
  assumes "ClientSession_ctor addr timeout env = Some (Inr session)"
    and "length (issued session es) < 2 ^ 64"
  shows "(\<forall>i < length (issued session es). unat (issued session es ! i) = Suc i)
       \<and> 0 \<notin> set (issued session es)
       \<and> sorted_wrt (<) (issued session es)
       \<and> nextMessageId (fst (sendRequest session' request)) = nextMessageId session' + 1"
proof -
  let ?ids = "issued session es"
  have nth: "unat (?ids ! i) = Suc i" if "i < length ?ids" for i
  proof -
    from that assms(2) have "Suc i < 2 ^ 64" by simp
    then have "unat ((1::64 word) + of_nat i) = Suc i" by (rule unat_one_plus)
    with issued_nth [OF that] ctor_nextMessageId [OF assms(1)] show ?thesis by simp
  qed
  have nonzero: "0 \<notin> set ?ids"
  proof
    assume "0 \<in> set ?ids"
    then obtain i where "i < length ?ids" "?ids ! i = 0" by (auto simp: in_set_conv_nth)
    with nth [of i] show False by simp
  qed
  have sorted: "sorted_wrt (<) ?ids"
    unfolding sorted_wrt_iff_nth_less
  proof (intro allI impI)
    fix i j assume "i < j" "j < length ?ids"
    with nth [of i] nth [of j] show "?ids ! i < ?ids ! j"
      by (simp add: word_less_nat_alt)
  qed
  have incr: "nextMessageId (fst (sendRequest session' request)) = nextMessageId session' + 1"
    by (simp add: sendRequest_unfold)
  from nth nonzero sorted incr show ?thesis by blast
qed

lemma issued_example:
  "issued example_session [SendRequest ''A'', ReceiveMessage 1 ''x'', SendRequest ''B''] = [1, 2]"
  by (simp add: sendRequest_unfold onReceiveMessage_def example_session_def
        ClientSession_init_def PING_MESSAGE_ID_def Response_new_def Let_def deschedule_def
        schedule_def)

theorem issued_ids_increase_witness:
  "ClientSession_ctor ''host:61023'' 1000 example_env = Some (Inr example_session)
   \<and> issued example_session [SendRequest ''A'', ReceiveMessage 1 ''x'', SendRequest ''B''] = [1, 2]
   \<and> length [1, 2 :: MessageId] < 2 ^ 64
   \<and> unat ([1, 2 :: MessageId] ! 0) = Suc 0 \<and> unat ([1, 2 :: MessageId] ! 1) = Suc 1
   \<and> 0 \<notin> set [1, 2 :: MessageId]
   \<and> sorted_wrt (<) [1, 2 :: MessageId]
   \<and> nextMessageId (fst (sendRequest example_session ''A'')) = nextMessageId example_session + 1"
proof -
  have len: "length (issued example_session
      [SendRequest ''A'', ReceiveMessage 1 ''x'', SendRequest ''B'']) < 2 ^ 64"
    by (simp add: issued_example)
  from issued_ids_increase [OF example_session_ctor len, of example_session "''A''"]
  show ?thesis
    unfolding issued_example using example_session_ctor by simp
qed

theorem issued_ids_counterexample:
  "ClientSession_ctor ''host:61023'' 1000 example_env = Some (Inr example_session)
   \<and> issued example_session (replicate (2 ^ 64) (SendRequest ''A'')) ! (2 ^ 64 - 2) =
       18446744073709551615
   \<and> issued example_session (replicate (2 ^ 64) (SendRequest ''A'')) ! (2 ^ 64 - 1) = 0"
proof -
  let ?n = "2 ^ 64 :: nat"
  have len: "length (issued example_session (replicate ?n (SendRequest ''A''))) = ?n"
    by (rule issued_replicate)
  have one: "nextMessageId example_session = 1"
    by (simp add: example_session_def ClientSession_init_def)
  have a: "?n - 2 < length (issued example_session (replicate ?n (SendRequest ''A'')))"
    unfolding len by simp
  have b: "?n - 1 < length (issued example_session (replicate ?n (SendRequest ''A'')))"
    unfolding len by simp
  have wa: "(1::MessageId) + of_nat (?n - 2) = 18446744073709551615" by simp
  have wb: "(1::MessageId) + of_nat (?n - 1) = 0" by simp
  from issued_nth [OF a] issued_nth [OF b] one wa wb example_session_ctor
  show ?thesis by (simp only: simp_thms)
qed

section \<open>Cancellation and the count of active calls\<close>

lemma fun_upd_same_eq: "(f(k := a) = f(k := b)) = (a = b)"
  by (auto dest: fun_upd_eqD)

text \<open>
  C1 fails on the code. A thread is blocked in \<open>wait\<close> on the call with token 1; \<open>cancel\<close>
  marks the record \<open>CANCELED\<close> and leaves it to the waiter; the reply frame arrives before
  the waiter runs. \<open>onReceiveMessage\<close> only tests for \<open>HAS_REPLY\<close>, so it turns the
  cancelled record into \<open>HAS_REPLY\<close> and decrements \<open>numActiveRPCs\<close> a second time, from
  0 to the largest value of the counter. The waiter then finds \<open>HAS_REPLY\<close> and returns without erasing the record, and an
  \<open>update\<close> on the session resolves the call as \<open>OK\<close>.
\<close>

theorem reply_after_cancel_overwrites:
  "reachable example_waiting
   \<and> wait_check example_waiting example_rpc 1000 0 =
       (example_waiting\<lparr>responses := [1 \<mapsto> Response_new\<lparr>hasWaiter := True\<rparr>]\<rparr>, Blocked)
   \<and> cancel (example_waiting\<lparr>responses := [1 \<mapsto> Response_new\<lparr>hasWaiter := True\<rparr>]\<rparr>)
        example_rpc = (example_canceled, example_rpc)
   \<and> onReceiveMessage example_canceled 1 ''reply-A'' =
       example_canceled\<lparr>numActiveRPCs := 4294967295,
         responses := [1 \<mapsto> \<lparr>status = HAS_REPLY, reply = ''reply-A'', hasWaiter = True,
                               ready = 2\<rparr>]\<rparr>
   \<and> wait example_waiting example_rpc 1000 0
        [([Cancel example_rpc, ReceiveMessage 1 ''reply-A''], 10)] =
       Some (Inr (example_raced, example_rpc))
   \<and> update example_raced example_rpc =
       Inr (example_raced\<lparr>responses := Map.empty\<rparr>,
            example_rpc\<lparr>rpc_reply := ''reply-A'', rpc_status := OK, rpc_session := False\<rparr>)"
proof -
  have 1: "wait_check example_waiting example_rpc 1000 0 =
       (example_waiting\<lparr>responses := [1 \<mapsto> Response_new\<lparr>hasWaiter := True\<rparr>]\<rparr>, Blocked)"
    by (simp add: wait_check_def example_waiting_def example_rpc_def Response_new_def)
  have 2: "cancel (example_waiting\<lparr>responses := [1 \<mapsto> Response_new\<lparr>hasWaiter := True\<rparr>]\<rparr>)
        example_rpc = (example_canceled, example_rpc)"
    by (simp add: cancel_def example_waiting_def example_canceled_def example_rpc_def
          Response_new_def notify_all_def Let_def)
  have 3: "onReceiveMessage example_canceled 1 ''reply-A'' =
       example_canceled\<lparr>numActiveRPCs := 4294967295,
         responses := [1 \<mapsto> \<lparr>status = HAS_REPLY, reply = ''reply-A'', hasWaiter = True,
                               ready = 2\<rparr>]\<rparr>"
    by (simp add: onReceiveMessage_def example_canceled_def example_waiting_def
          PING_MESSAGE_ID_def schedule_def notify_all_def TIMEOUT_MS_def Let_def
          fun_upd_same_eq)
  have 4: "wait example_waiting example_rpc 1000 0
        [([Cancel example_rpc, ReceiveMessage 1 ''reply-A''], 10)] =
       Some (Inr (example_raced, example_rpc))"
    by (simp add: 1 2 3)
       (simp add: wait_wake_def wait_check_def example_canceled_def example_waiting_def
          example_raced_def example_rpc_def)
  have 5: "update example_raced example_rpc =
       Inr (example_raced\<lparr>responses := Map.empty\<rparr>,
            example_rpc\<lparr>rpc_reply := ''reply-A'', rpc_status := OK, rpc_session := False\<rparr>)"
    by (simp add: update_def example_raced_def example_rpc_def)
  from reachable_example_waiting 1 2 3 4 5 show ?thesis by blast
qed

text \<open>
  C2 fails on the code. \<open>cancel\<close> decrements \<open>numActiveRPCs\<close> for every record it finds,
  also for one that has its reply already and was counted out by \<open>onReceiveMessage\<close>. After
  a request, its reply and a cancel, no record is waiting, and the counter has wrapped from 0
  to its largest value, 4294967295 in the example.
\<close>

theorem cancel_after_reply_miscounts:
  "reachable example_session
   \<and> run example_session [SendRequest ''A'', ReceiveMessage 1 ''x'', Cancel example_rpc] =
       Inr (example_session\<lparr>nextMessageId := 2, messageSocket := Some [(1, ''A'')],
              numActiveRPCs := 4294967295\<rparr>)
   \<and> numActiveRPCs (example_session\<lparr>nextMessageId := 2, messageSocket := Some [(1, ''A'')],
              numActiveRPCs := 4294967295\<rparr>) = 4294967295
   \<and> numWaiting (example_session\<lparr>nextMessageId := 2, messageSocket := Some [(1, ''A'')],
              numActiveRPCs := 4294967295\<rparr>) = 0"
proof -
  have 1: "run example_session [SendRequest ''A'', ReceiveMessage 1 ''x'', Cancel example_rpc] =
       Inr (example_session\<lparr>nextMessageId := 2, messageSocket := Some [(1, ''A'')],
              numActiveRPCs := 4294967295\<rparr>)"
    by (simp add: sendRequest_example)
       (simp add: onReceiveMessage_def cancel_def example_waiting_def example_session_def
          ClientSession_init_def example_rpc_def PING_MESSAGE_ID_def deschedule_def
          Response_new_def notify_all_def Let_def)
  have 2: "numWaiting (example_session\<lparr>nextMessageId := 2, messageSocket := Some [(1, ''A'')],
              numActiveRPCs := 4294967295\<rparr>) = 0"
    by (simp add: numWaiting_def example_session_def ClientSession_init_def)
  from reachable_example_session 1 2 show ?thesis by simp
qed

section \<open>The assertions of \<open>update\<close>\<close>







end
